theory Spec2Isabelle
  imports Main
begin

section \<open>Values of the interpreter and of the libraries\<close>

text \<open>
  The crawler (\<^verbatim>\<open>crawl.py\<close>) is a Python program. A Python \<^verbatim>\<open>str\<close> is modelled as a
  \<^typ>\<open>string\<close>, each \<^typ>\<open>char\<close> being a code point below 256 (so \<open>CHR 0xA0\<close> is the
  no-break space); strings with higher code points are outside the model. A Python
  \<^verbatim>\<open>int\<close> is an unbounded \<^typ>\<open>int\<close>, a \<^verbatim>\<open>dict\<close> with string keys a map. A raised
  exception is the \<open>Inl\<close> side of a sum.
\<close>

datatype value_error =
    InvalidLiteral string
  | DictUpdateLength nat nat
  | Message string

datatype py_error =
    AttributeError
  | TypeError
  | IndexError
  | KeyError string
  | ZeroDivisionError
  | ValueError value_error
  | RequestException

text \<open>
  \<open>ValueError\<close> carries its argument: \<open>InvalidLiteral s\<close> is the error of \<^verbatim>\<open>int(s)\<close>,
  \<open>DictUpdateLength i n\<close> the error of \<^verbatim>\<open>dict(...)\<close> on an element number \<open>i\<close> of length
  \<open>n\<close>, \<open>Message m\<close> an error raised by the program itself with the text \<open>m\<close>.
  \<open>RequestException\<close> stands for every failure of \<^verbatim>\<open>requests.get\<close>.
\<close>

subsection \<open>Strings\<close>

text \<open>
  The whitespace of \<^verbatim>\<open>str.strip()\<close>, \<^verbatim>\<open>str.split()\<close> and \<^verbatim>\<open>str.isspace()\<close>: tab to
  carriage return, the four separators \<open>0x1C\<close> to \<open>0x1F\<close>, the blank, the next-line
  character \<open>0x85\<close> and the no-break space \<open>0xA0\<close>.
\<close>

definition is_space :: "char \<Rightarrow> bool" where
  "is_space c = (c \<in> set [CHR 0x09, CHR 0x0A, CHR 0x0B, CHR 0x0C, CHR 0x0D,
                           CHR 0x1C, CHR 0x1D, CHR 0x1E, CHR 0x1F, CHR 0x20,
                           CHR 0x85, CHR 0xA0])"

text \<open>
  The whitespace that \<^verbatim>\<open>int(s)\<close> skips around a literal: the same without the four
  separators \<open>0x1C\<close> to \<open>0x1F\<close>, which \<^verbatim>\<open>int\<close> rejects.
\<close>

definition is_int_space :: "char \<Rightarrow> bool" where
  "is_int_space c = (c \<in> set [CHR 0x09, CHR 0x0A, CHR 0x0B, CHR 0x0C, CHR 0x0D, CHR 0x20,
                               CHR 0x85, CHR 0xA0])"

definition is_digit :: "char \<Rightarrow> bool" where
  "is_digit c = (c \<in> set ''0123456789'')"

definition digit_val :: "char \<Rightarrow> int" where
  "digit_val c = int (of_char c) - 48"

text \<open>\<^verbatim>\<open>s.strip()\<close>: whitespace removed at both ends.\<close>

definition strip :: "string \<Rightarrow> string" where
  "strip s = rev (dropWhile is_space (rev (dropWhile is_space s)))"

text \<open>
  \<^verbatim>\<open>s.split()\<close>: the maximal runs of non-whitespace characters, in order. The first
  argument is the token being read.
\<close>

fun split_acc :: "string \<Rightarrow> string \<Rightarrow> string list" where
  "split_acc cur [] = (if cur = [] then [] else [cur])"
| "split_acc cur (c # cs) =
     (if is_space c then (if cur = [] then split_acc [] cs else cur # split_acc [] cs)
      else split_acc (cur @ [c]) cs)"

definition split_ws :: "string \<Rightarrow> string list" where
  "split_ws s = split_acc [] s"

text \<open>
  \<^verbatim>\<open>s.split(sep)\<close> for a one-character separator: the pieces between the separators,
  empty pieces kept, so the result is never empty.
\<close>

fun split_sep_acc :: "char \<Rightarrow> string \<Rightarrow> string \<Rightarrow> string list" where
  "split_sep_acc sep cur [] = [cur]"
| "split_sep_acc sep cur (c # cs) =
     (if c = sep then cur # split_sep_acc sep [] cs else split_sep_acc sep (cur @ [c]) cs)"

definition split_sep :: "char \<Rightarrow> string \<Rightarrow> string list" where
  "split_sep sep s = split_sep_acc sep [] s"

text \<open>
  \<^verbatim>\<open>int(s)\<close> in base 10: the whitespace of \<open>is_int_space\<close> around the literal is
  skipped, one sign is allowed, and the digits may be grouped by single underscores.
  \<open>digits_ok p body\<close> reads the body after the sign, \<open>p\<close> telling whether the character
  before was a digit. The digits are \<^verbatim>\<open>0\<close> to \<^verbatim>\<open>9\<close>, the only decimal digits below 256.
  The interpreter's limit on the number of digits of a literal (4300 by default, and
  configurable) is left out: literals are taken to be shorter.
\<close>

definition int_strip :: "string \<Rightarrow> string" where
  "int_strip s = rev (dropWhile is_int_space (rev (dropWhile is_int_space s)))"

fun digits_ok :: "bool \<Rightarrow> string \<Rightarrow> bool" where
  "digits_ok p [] = p"
| "digits_ok p (c # cs) =
     (if is_digit c then digits_ok True cs
      else c = CHR ''_'' \<and> p \<and> digits_ok False cs)"

definition digits_value :: "string \<Rightarrow> int" where
  "digits_value body = foldl (\<lambda>acc c. if is_digit c then acc * 10 + digit_val c else acc) 0 body"

definition py_int :: "string \<Rightarrow> py_error + int" where
  "py_int s =
     (let t = int_strip s;
          neg = (t \<noteq> [] \<and> hd t = CHR ''-'');
          body = (if t \<noteq> [] \<and> (hd t = CHR ''-'' \<or> hd t = CHR ''+'') then tl t else t)
      in if digits_ok False body
         then Inr (if neg then - digits_value body else digits_value body)
         else Inl (ValueError (InvalidLiteral s)))"

text \<open>\<^verbatim>\<open>a // b\<close> on integers: the floor of the quotient, an error for a zero divisor.\<close>

definition py_floordiv :: "int \<Rightarrow> int \<Rightarrow> py_error + int" where
  "py_floordiv a b = (if b = 0 then Inl ZeroDivisionError else Inr (a div b))"

text \<open>
  \<^verbatim>\<open>dict(pairs)\<close> on a sequence of lists: every element must have length 2, a later
  key overrides an earlier one. The first argument is the dictionary built so far, the
  second the number of the element being read.
\<close>

fun py_dict_acc :: "(string \<rightharpoonup> string) \<Rightarrow> nat \<Rightarrow> string list list \<Rightarrow> py_error + (string \<rightharpoonup> string)" where
  "py_dict_acc m i [] = Inr m"
| "py_dict_acc m i (x # xs) =
     (case x of
        [k, v] \<Rightarrow> py_dict_acc (m(k \<mapsto> v)) (Suc i) xs
      | _ \<Rightarrow> Inl (ValueError (DictUpdateLength i (length x))))"

definition py_dict :: "string list list \<Rightarrow> py_error + (string \<rightharpoonup> string)" where
  "py_dict xs = py_dict_acc Map.empty 0 xs"

subsection \<open>Parsed markup\<close>

text \<open>
  What \<^verbatim>\<open>BeautifulSoup(page.text, "html.parser")\<close> returns: a tree of tags and text.
  A tag has a name, the list of its classes (the library keeps the \<^verbatim>\<open>class\<close> attribute
  as a list), its other attributes and its children.
\<close>

datatype node =
    Text string
  | Tag string "string list" "(string \<times> string) list" "node list"

fun descendants :: "node \<Rightarrow> node list" where
  "descendants (Text s) = []"
| "descendants (Tag n cls attrs ch) = concat (map (\<lambda>c. c # descendants c) ch)"

fun text_of :: "node \<Rightarrow> string" where
  "text_of (Text s) = s"
| "text_of (Tag n cls attrs ch) = concat (map text_of ch)"

fun is_tag :: "string \<Rightarrow> node \<Rightarrow> bool" where
  "is_tag name (Text s) = False"
| "is_tag name (Tag n cls attrs ch) = (n = name)"

fun has_class :: "string \<Rightarrow> node \<Rightarrow> bool" where
  "has_class c (Text s) = False"
| "has_class c (Tag n cls attrs ch) = (c \<in> set cls)"

text \<open>
  \<^verbatim>\<open>t.find(name)\<close> and \<^verbatim>\<open>t.find(name, {"class": c})\<close>: the first tag below \<open>t\<close>, in
  document order, with that name (and with \<open>c\<close> among its classes), or \<^verbatim>\<open>None\<close>.
  \<^verbatim>\<open>t.text\<close> is the text below \<open>t\<close>, \<^verbatim>\<open>t[k]\<close> the attribute \<open>k\<close> of \<open>t\<close>.
\<close>

definition find_tag :: "node \<Rightarrow> string \<Rightarrow> node option" where
  "find_tag t name = List.find (is_tag name) (descendants t)"

definition find_class :: "node \<Rightarrow> string \<Rightarrow> string \<Rightarrow> node option" where
  "find_class t name c = List.find (\<lambda>x. is_tag name x \<and> has_class c x) (descendants t)"

fun attr :: "node \<Rightarrow> string \<Rightarrow> string option" where
  "attr (Text s) k = None"
| "attr (Tag n cls attrs ch) k = map_of attrs k"

section \<open>The crawler\<close>

text \<open>
  \<open>SiteConfig\<close> is the dictionary of one section of the configuration file, from option
  name to value, both strings. \<open>CrawlResult\<close> always has the two keys \<^verbatim>\<open>free\<close> and \<^verbatim>\<open>active\<close>.
  The network is a parameter \<open>http\<close>: what \<^verbatim>\<open>requests.get(url)\<close> followed by
  \<^verbatim>\<open>BeautifulSoup(page.text, "html.parser")\<close> gives for a URL, or the error of the request.
\<close>

type_synonym site_config = "string \<rightharpoonup> string"

type_synonym fetcher = "string \<Rightarrow> py_error + node"

record crawl_result =
  free :: int
  active :: int

subsection \<open>\<^verbatim>\<open>crawl_boulderado\<close>\<close>

definition boulderado_url :: "string \<Rightarrow> string" where
  "boulderado_url token =
     ''https://www.boulderado.de/boulderadoweb/gym-clientcounter/index.php?mode=get&token='' @ token"

text \<open>The expression assigned to \<^verbatim>\<open>count_string\<close>, for one value of \<^verbatim>\<open>count_value\<close>.\<close>

definition count_string :: "node \<Rightarrow> string \<Rightarrow> py_error + string" where
  "count_string soup count_value =
     (case find_class soup ''div'' (count_value @ ''counter-content'') of
        None \<Rightarrow> Inl AttributeError
      | Some d \<Rightarrow>
          (case find_tag d ''span'' of
             None \<Rightarrow> Inl AttributeError
           | Some sp \<Rightarrow> Inr (text_of sp)))"

text \<open>The \<^verbatim>\<open>for\<close> loop over \<^verbatim>\<open>("act", "free")\<close>, filling \<^verbatim>\<open>data\<close>.\<close>

fun count_loop :: "node \<Rightarrow> (string \<rightharpoonup> int) \<Rightarrow> string list \<Rightarrow> py_error + (string \<rightharpoonup> int)" where
  "count_loop soup data [] = Inr data"
| "count_loop soup data (count_value # rest) =
     (case count_string soup count_value of
        Inl e \<Rightarrow> Inl e
      | Inr s \<Rightarrow>
          (case py_int s of
             Inl e \<Rightarrow> Inl e
           | Inr count \<Rightarrow> count_loop soup (data(count_value \<mapsto> count)) rest))"

definition crawl_boulderado :: "fetcher \<Rightarrow> site_config \<Rightarrow> py_error + crawl_result" where
  "crawl_boulderado http site_config =
     (case site_config ''token'' of
        None \<Rightarrow> Inl (KeyError ''token'')
      | Some token \<Rightarrow>
     (case http (boulderado_url token) of
        Inl e \<Rightarrow> Inl e
      | Inr soup \<Rightarrow>
     (case count_loop soup Map.empty [''act'', ''free''] of
        Inl e \<Rightarrow> Inl e
      | Inr data \<Rightarrow>
     (case data ''free'' of
        None \<Rightarrow> Inl (KeyError ''free'')
      | Some f \<Rightarrow>
     (case data ''act'' of
        None \<Rightarrow> Inl (KeyError ''act'')
      | Some a \<Rightarrow> Inr \<lparr>free = f, active = a\<rparr>)))))"

subsection \<open>\<^verbatim>\<open>crawl_webclimber\<close>\<close>

definition webclimber_url :: "string \<Rightarrow> string \<Rightarrow> string" where
  "webclimber_url clientid token =
     ''https://'' @ clientid @ ''.webclimber.de/de/trafficlight?key='' @ token"

text \<open>The expression assigned to \<^verbatim>\<open>free_slots_str\<close>.\<close>

definition free_slots_str :: "node \<Rightarrow> py_error + string" where
  "free_slots_str soup =
     (case find_class soup ''div'' ''status_text'' of
        None \<Rightarrow> Inl AttributeError
      | Some st \<Rightarrow>
          (case split_ws (strip (text_of st)) of
             [] \<Rightarrow> Inl IndexError
           | tok # _ \<Rightarrow> Inr tok))"

text \<open>The \<^verbatim>\<open>try\<close> block: \<^verbatim>\<open>free_slots\<close> stays \<open>-1\<close> when \<^verbatim>\<open>int\<close> raises \<^verbatim>\<open>ValueError\<close>.\<close>

definition free_slots_of :: "string \<Rightarrow> int" where
  "free_slots_of s = (case py_int s of Inl e \<Rightarrow> - 1 | Inr v \<Rightarrow> v)"

text \<open>The argument of \<^verbatim>\<open>int\<close> in the line that assigns \<^verbatim>\<open>bar_width\<close>, applied to the width value.\<close>

definition width_value :: "string \<Rightarrow> py_error + int" where
  "width_value w = py_int (butlast (strip w))"

text \<open>The three lines that read the style attribute of the bar and assign \<^verbatim>\<open>bar_width\<close>.\<close>

definition bar_width :: "node \<Rightarrow> py_error + int" where
  "bar_width soup =
     (case find_class soup ''div'' ''bar'' of
        None \<Rightarrow> Inl TypeError
      | Some b \<Rightarrow>
     (case attr b ''style'' of
        None \<Rightarrow> Inl (KeyError ''style'')
      | Some style \<Rightarrow>
     (case py_dict (map (split_sep CHR '':'') (split_sep CHR '';'' style)) of
        Inl e \<Rightarrow> Inl e
      | Inr style_attrs \<Rightarrow>
     (case style_attrs ''width'' of
        None \<Rightarrow> Inl (KeyError ''width'')
      | Some w \<Rightarrow> width_value w))))"

text \<open>The computation of the slots from \<^verbatim>\<open>free_slots\<close> and \<^verbatim>\<open>bar_width\<close>, up to the \<^verbatim>\<open>return\<close>.\<close>

definition slots :: "int \<Rightarrow> int \<Rightarrow> py_error + crawl_result" where
  "slots free_slots bw =
     (if free_slots = - 1
      then (let total_slots = 100; free_slots' = 100 - bw
            in Inr \<lparr>free = free_slots', active = total_slots - free_slots'\<rparr>)
      else (case py_floordiv free_slots bw of
              Inl e \<Rightarrow> Inl e
            | Inr q \<Rightarrow>
                (let total_slots = q * 100
                 in Inr \<lparr>free = free_slots, active = total_slots - free_slots\<rparr>)))"

definition crawl_webclimber :: "fetcher \<Rightarrow> site_config \<Rightarrow> py_error + crawl_result" where
  "crawl_webclimber http site_config =
     (case site_config ''clientid'' of
        None \<Rightarrow> Inl (KeyError ''clientid'')
      | Some clientid \<Rightarrow>
     (case site_config ''token'' of
        None \<Rightarrow> Inl (KeyError ''token'')
      | Some token \<Rightarrow>
     (case http (webclimber_url clientid token) of
        Inl e \<Rightarrow> Inl e
      | Inr soup \<Rightarrow>
     (case free_slots_str soup of
        Inl e \<Rightarrow> Inl e
      | Inr s \<Rightarrow>
     (case bar_width soup of
        Inl e \<Rightarrow> Inl e
      | Inr bw \<Rightarrow> slots (free_slots_of s) bw)))))"

subsection \<open>\<^verbatim>\<open>crawl_site\<close>\<close>

definition unknown_type_message :: "string \<Rightarrow> string \<Rightarrow> string" where
  "unknown_type_message other site_name =
     ''unknown boulder arena type: '' @ other @ '' for site '' @ site_name @ ''.''"

definition crawl_site :: "fetcher \<Rightarrow> string \<Rightarrow> site_config \<Rightarrow> py_error + crawl_result" where
  "crawl_site http site_name site_config =
     (case site_config ''type'' of
        None \<Rightarrow> Inl (KeyError ''type'')
      | Some t \<Rightarrow>
          if t = ''boulderado'' then crawl_boulderado http site_config
          else if t = ''webclimber'' then crawl_webclimber http site_config
          else Inl (ValueError (Message (unknown_type_message t site_name))))"

subsection \<open>\<^verbatim>\<open>create_point_message\<close>\<close>

text \<open>
  The message is a dictionary with the four keys \<^verbatim>\<open>measurement\<close>, \<^verbatim>\<open>tags\<close>, \<^verbatim>\<open>time\<close> and
  \<^verbatim>\<open>fields\<close>, the fields of the record below. The first parameter is the text
  that \<^verbatim>\<open>datetime.utcnow().isoformat()\<close> gives at the call.
\<close>

record point_message =
  msg_measurement :: string
  msg_tags :: "string \<rightharpoonup> string"
  msg_time :: string
  msg_fields :: "string \<rightharpoonup> int"

definition create_point_message :: "string \<Rightarrow> string \<Rightarrow> site_config \<Rightarrow> crawl_result \<Rightarrow> point_message" where
  "create_point_message now site_name site_config data =
     (let location = (case site_config ''location'' of Some l \<Rightarrow> l | None \<Rightarrow> site_name);
          message = \<lparr>msg_measurement = ''boulder_center_utilization'',
                     msg_tags = [''location'' \<mapsto> location],
                     msg_time = now,
                     msg_fields = [''free'' \<mapsto> free data, ''active'' \<mapsto> active data]\<rparr>
      in case site_config ''area'' of
           Some a \<Rightarrow> message\<lparr>msg_tags := (msg_tags message)(''area'' \<mapsto> a)\<rparr>
         | None \<Rightarrow> message)"

section \<open>Example pages\<close>

text \<open>
  A status page of webclimber with the given status text and the given style of the bar,
  a counter page of boulderado with the given texts of the two counters, the fetcher that
  answers every request with one page, and two configurations.
\<close>

definition webclimber_page :: "string \<Rightarrow> string \<Rightarrow> node" where
  "webclimber_page status style =
     Tag ''[document]'' [] []
       [Tag ''div'' [''trafficlight''] []
          [Tag ''div'' [''status_text''] [] [Text status],
           Tag ''div'' [''progress''] [] [Tag ''div'' [''bar''] [(''style'', style)] []]]]"

definition boulderado_page :: "node list \<Rightarrow> node" where
  "boulderado_page counters = Tag ''[document]'' [] [] [Tag ''body'' [] [] counters]"

definition counter :: "string \<Rightarrow> string \<Rightarrow> node" where
  "counter count_value txt =
     Tag ''div'' [count_value @ ''counter-content''] [] [Tag ''span'' [] [(''data-value'', txt)] [Text txt]]"

definition serve :: "node \<Rightarrow> fetcher" where
  "serve page url = Inr page"

definition webclimber_config :: site_config where
  "webclimber_config = [''type'' \<mapsto> ''webclimber'', ''clientid'' \<mapsto> ''143'', ''token'' \<mapsto> ''abc'']"

definition boulderado_config :: site_config where
  "boulderado_config = [''type'' \<mapsto> ''boulderado'', ''token'' \<mapsto> ''xyz'', ''area'' \<mapsto> ''boulder'']"

section \<open>Evaluation\<close>

lemmas string_defs =
  strip_def is_space_def int_strip_def is_int_space_def is_digit_def digits_value_def
  digit_val_def split_ws_def split_sep_def
  py_int_def py_dict_def py_floordiv_def

lemmas soup_defs = find_class_def find_tag_def

lemmas webclimber_defs =
  crawl_webclimber_def free_slots_str_def free_slots_of_def width_value_def bar_width_def slots_def

lemmas boulderado_defs = crawl_boulderado_def count_string_def

lemmas example_defs =
  webclimber_page_def boulderado_page_def counter_def serve_def webclimber_config_def
  boulderado_config_def

section \<open>The webclimber adapter\<close>

lemma crawl_webclimber_fetched:
  assumes "cfg ''clientid'' = Some cid" and "cfg ''token'' = Some tok"
    and "http (webclimber_url cid tok) = Inr soup"
    and "free_slots_str soup = Inr s" and "bar_width soup = Inr w"
  shows "crawl_webclimber http cfg = slots (free_slots_of s) w"
  using assms by (simp add: crawl_webclimber_def)

lemma example_free_slots_str:
  "free_slots_str (webclimber_page ''17 frei'' style) = Inr ''17''"
  "free_slots_str (webclimber_page ''40 frei'' style) = Inr ''40''"
  "free_slots_str (webclimber_page ''-1 frei'' style) = Inr ''-1''"
  "free_slots_str (webclimber_page ''Auslastung hoch'' style) = Inr ''Auslastung''"
  by (simp_all add: webclimber_page_def free_slots_str_def soup_defs string_defs)

lemma example_bar_width:
  "bar_width (webclimber_page status ''width:0%'') = Inr 0"
  "bar_width (webclimber_page status ''width:35%'') = Inr 35"
  "bar_width (webclimber_page status ''width:40%'') = Inr 40"
  "bar_width (webclimber_page status ''width:50%'') = Inr 50"
  "bar_width (webclimber_page status ''width:101%'') = Inr 101"
  "bar_width (webclimber_page status ''width:405'') = Inr 40"
  by (simp_all add: webclimber_page_def bar_width_def width_value_def soup_defs string_defs)

lemma example_py_int:
  "py_int ''17'' = Inr 17"
  "py_int ''40'' = Inr 40"
  "py_int ''-1'' = Inr (- 1)"
  "py_int ''Auslastung'' = Inl (ValueError (InvalidLiteral ''Auslastung''))"
  by (simp_all add: string_defs)

lemma example_served:
  "webclimber_config ''clientid'' = Some ''143''"
  "webclimber_config ''token'' = Some ''abc''"
  "serve page url = Inr page"
  by (simp_all add: webclimber_config_def serve_def)

text \<open>
  Whitespace: a no-break space separates the tokens of the status text and is skipped by
  \<^verbatim>\<open>int\<close>; the separator \<open>0x1C\<close> is removed by \<^verbatim>\<open>strip\<close> and rejected by \<^verbatim>\<open>int\<close>.
\<close>

lemma example_whitespace:
  "free_slots_str (webclimber_page (''40'' @ [CHR 0xA0] @ ''frei'') style) = Inr ''40''"
  "py_int (''12'' @ [CHR 0xA0]) = Inr 12"
  "py_int ([CHR 0x1C] @ ''12'') = Inl (ValueError (InvalidLiteral ([CHR 0x1C] @ ''12'')))"
  "strip ([CHR 0x1C] @ ''12'' @ [CHR 0x1C]) = ''12''"
  "bar_width (webclimber_page status (''width:40'' @ [CHR 0x1C] @ ''%''))
     = Inl (ValueError (InvalidLiteral (''40'' @ [CHR 0x1C])))"
  "bar_width (webclimber_page status ''width: 40% '') = Inr 40"
  by (simp_all add: webclimber_page_def free_slots_str_def bar_width_def width_value_def
      soup_defs string_defs)

text \<open>
  C1. With a free count of 17 and a bar of width 0\%, the claim wants the result
  \<open>{free: 17, active: 0}\<close>. The adapter divides the free count by the width and raises
  \<^verbatim>\<open>ZeroDivisionError\<close>.
\<close>

theorem webclimber_zero_width_raises:
  "crawl_webclimber (serve (webclimber_page ''17 frei'' ''width:0%'')) webclimber_config
     = Inl ZeroDivisionError"
proof -
  have "crawl_webclimber (serve (webclimber_page ''17 frei'' ''width:0%'')) webclimber_config
          = slots (free_slots_of ''17'') 0"
    by (rule crawl_webclimber_fetched [where cid = "''143''" and tok = "''abc''"])
       (rule example_served example_free_slots_str example_bar_width)+
  then show ?thesis
    by (simp add: free_slots_of_def example_py_int slots_def py_floordiv_def)
qed

text \<open>
  C3. The claim gives the formula of Branch B for every first token that is read as an
  integer. The token \<^verbatim>\<open>-1\<close> is read as the integer \<open>-1\<close>, which is the mark of an unknown
  count: with a bar of width 40\% the formula would give \<open>-1\<close> free and \<open>-99\<close> active
  slots, and the adapter returns the result of Branch A, 60 free and 40 active slots.
\<close>

theorem webclimber_minus_one_not_branch_b:
  "free_slots_str (webclimber_page ''-1 frei'' ''width:40%'') = Inr ''-1''
   \<and> py_int ''-1'' = Inr (- 1)
   \<and> bar_width (webclimber_page ''-1 frei'' ''width:40%'') = Inr 40
   \<and> crawl_webclimber (serve (webclimber_page ''-1 frei'' ''width:40%'')) webclimber_config
       = Inr \<lparr>free = 60, active = 40\<rparr>
   \<and> \<lparr>free = 60, active = 40\<rparr> \<noteq> \<lparr>free = - 1, active = (- 1 div 40) * 100 - (- 1)\<rparr>"
proof -
  let ?page = "webclimber_page ''-1 frei'' ''width:40%''"
  have h1: "free_slots_str ?page = Inr ''-1''" by (rule example_free_slots_str)
  have h2: "py_int ''-1'' = Inr (- 1)" by (rule example_py_int)
  have h3: "bar_width ?page = Inr 40" by (rule example_bar_width)
  have "crawl_webclimber (serve ?page) webclimber_config = slots (free_slots_of ''-1'') 40"
    by (rule crawl_webclimber_fetched [where cid = "''143''" and tok = "''abc''"])
       (rule example_served example_free_slots_str example_bar_width)+
  then have r: "crawl_webclimber (serve ?page) webclimber_config = Inr \<lparr>free = 60, active = 40\<rparr>"
    by (simp add: free_slots_of_def example_py_int slots_def)
  have d: "\<lparr>free = 60, active = 40\<rparr> \<noteq> \<lparr>free = - 1, active = (- 1 div 40) * 100 - (- 1)\<rparr>"
    by simp
  show ?thesis by (intro conjI h1 h2 h3 r d)
qed

text \<open>
  C3 as amended. Branch B: when the first token of the status text is read as an integer
  \<open>f\<close> other than \<open>-1\<close> and the width of the bar as an integer \<open>w\<close> other than 0, the adapter
  computes the total \<open>(f // w) * 100\<close> and returns \<open>f\<close> free and the total minus \<open>f\<close> active
  slots; for 40 free slots and a width of 40\% that is 40 free and 60 active slots.
\<close>

theorem webclimber_branch_b:
  assumes "cfg ''clientid'' = Some cid" and "cfg ''token'' = Some tok"
    and "http (webclimber_url cid tok) = Inr soup"
    and "free_slots_str soup = Inr s" and "py_int s = Inr f" and "f \<noteq> - 1"
    and "bar_width soup = Inr w" and "w \<noteq> 0"
  shows "crawl_webclimber http cfg = Inr \<lparr>free = f, active = (f div w) * 100 - f\<rparr>"
proof -
  have "crawl_webclimber http cfg = slots (free_slots_of s) w"
    using assms(1-4,7) by (rule crawl_webclimber_fetched)
  with assms(5,6,8) show ?thesis
    by (simp add: free_slots_of_def slots_def py_floordiv_def)
qed

theorem webclimber_branch_b_witness:
  "webclimber_config ''clientid'' = Some ''143'' \<and> webclimber_config ''token'' = Some ''abc''
   \<and> serve (webclimber_page ''40 frei'' ''width:40%'') (webclimber_url ''143'' ''abc'')
       = Inr (webclimber_page ''40 frei'' ''width:40%'')
   \<and> free_slots_str (webclimber_page ''40 frei'' ''width:40%'') = Inr ''40''
   \<and> py_int ''40'' = Inr 40 \<and> (40::int) \<noteq> - 1
   \<and> bar_width (webclimber_page ''40 frei'' ''width:40%'') = Inr 40 \<and> (40::int) \<noteq> 0
   \<and> crawl_webclimber (serve (webclimber_page ''40 frei'' ''width:40%'')) webclimber_config
       = Inr \<lparr>free = 40, active = 60\<rparr>"
proof -
  let ?page = "webclimber_page ''40 frei'' ''width:40%''"
  have h1: "webclimber_config ''clientid'' = Some ''143''" by (rule example_served)
  have h2: "webclimber_config ''token'' = Some ''abc''" by (rule example_served)
  have h3: "serve ?page (webclimber_url ''143'' ''abc'') = Inr ?page" by (rule example_served)
  have h4: "free_slots_str ?page = Inr ''40''" by (rule example_free_slots_str)
  have h5: "py_int ''40'' = Inr 40" by (rule example_py_int)
  have h6: "(40::int) \<noteq> - 1" by simp
  have h7: "bar_width ?page = Inr 40" by (rule example_bar_width)
  have h8: "(40::int) \<noteq> 0" by simp
  have "crawl_webclimber (serve ?page) webclimber_config
          = Inr \<lparr>free = 40, active = (40 div 40) * 100 - 40\<rparr>"
    using h1 h2 h3 h4 h5 h6 h7 h8 by (rule webclimber_branch_b)
  then have r: "crawl_webclimber (serve ?page) webclimber_config = Inr \<lparr>free = 40, active = 60\<rparr>"
    by simp
  show ?thesis by (intro conjI h1 h2 h3 h4 h5 h6 h7 h8 r)
qed

text \<open>
  C4. Branch A: when \<^verbatim>\<open>int\<close> rejects the first token of the status text, nothing is
  raised; with the width \<open>w\<close> of the bar the adapter returns \<open>100 - w\<close> free and \<open>w\<close>
  active slots.
\<close>

theorem webclimber_branch_a:
  assumes "cfg ''clientid'' = Some cid" and "cfg ''token'' = Some tok"
    and "http (webclimber_url cid tok) = Inr soup"
    and "free_slots_str soup = Inr s" and "py_int s = Inl e"
    and "bar_width soup = Inr w"
  shows "crawl_webclimber http cfg = Inr \<lparr>free = 100 - w, active = w\<rparr>"
proof -
  have "crawl_webclimber http cfg = slots (free_slots_of s) w"
    using assms(1-4,6) by (rule crawl_webclimber_fetched)
  with assms(5) show ?thesis
    by (simp add: free_slots_of_def slots_def)
qed

theorem webclimber_branch_a_witness:
  "webclimber_config ''clientid'' = Some ''143'' \<and> webclimber_config ''token'' = Some ''abc''
   \<and> serve (webclimber_page ''Auslastung hoch'' ''width:35%'') (webclimber_url ''143'' ''abc'')
       = Inr (webclimber_page ''Auslastung hoch'' ''width:35%'')
   \<and> free_slots_str (webclimber_page ''Auslastung hoch'' ''width:35%'') = Inr ''Auslastung''
   \<and> py_int ''Auslastung'' = Inl (ValueError (InvalidLiteral ''Auslastung''))
   \<and> bar_width (webclimber_page ''Auslastung hoch'' ''width:35%'') = Inr 35
   \<and> crawl_webclimber (serve (webclimber_page ''Auslastung hoch'' ''width:35%'')) webclimber_config
       = Inr \<lparr>free = 65, active = 35\<rparr>"
proof -
  let ?page = "webclimber_page ''Auslastung hoch'' ''width:35%''"
  have h1: "webclimber_config ''clientid'' = Some ''143''" by (rule example_served)
  have h2: "webclimber_config ''token'' = Some ''abc''" by (rule example_served)
  have h3: "serve ?page (webclimber_url ''143'' ''abc'') = Inr ?page" by (rule example_served)
  have h4: "free_slots_str ?page = Inr ''Auslastung''" by (rule example_free_slots_str)
  have h5: "py_int ''Auslastung'' = Inl (ValueError (InvalidLiteral ''Auslastung''))"
    by (rule example_py_int)
  have h6: "bar_width ?page = Inr 35" by (rule example_bar_width)
  have "crawl_webclimber (serve ?page) webclimber_config = Inr \<lparr>free = 100 - 35, active = 35\<rparr>"
    using h1 h2 h3 h4 h5 h6 by (rule webclimber_branch_a)
  then have r: "crawl_webclimber (serve ?page) webclimber_config = Inr \<lparr>free = 65, active = 35\<rparr>"
    by simp
  show ?thesis by (intro conjI h1 h2 h3 h4 h5 h6 r)
qed

text \<open>
  C9. The literal \<^verbatim>\<open>-1\<close> as first token is read as the integer that marks an unknown
  count, so Branch A is taken. The claim goes on to say that no result has \<open>free = -1\<close>:
  that fails for a bar of width 101\% in Branch A.
\<close>

theorem webclimber_free_minus_one_at_width_101:
  "crawl_webclimber (serve (webclimber_page ''Auslastung hoch'' ''width:101%'')) webclimber_config
     = Inr \<lparr>free = - 1, active = 101\<rparr>
   \<and> free \<lparr>free = - 1, active = 101\<rparr> = - 1"
proof -
  have "crawl_webclimber (serve (webclimber_page ''Auslastung hoch'' ''width:101%'')) webclimber_config
          = slots (free_slots_of ''Auslastung'') 101"
    by (rule crawl_webclimber_fetched [where cid = "''143''" and tok = "''abc''"])
       (rule example_served example_free_slots_str example_bar_width)+
  then show ?thesis
    by (simp add: free_slots_of_def example_py_int slots_def)
qed

text \<open>
  C9 as amended. A first token that \<^verbatim>\<open>int\<close> reads as \<open>-1\<close> gives the result of Branch A,
  \<open>100 - w\<close> free and \<open>w\<close> active slots for the width \<open>w\<close>; and a result of the adapter has
  \<open>free = -1\<close> exactly when Branch A is taken with the width 101, so never in Branch B
  and never for a width of at most 100.
\<close>

theorem webclimber_sentinel:
  "(cfg ''clientid'' = Some cid \<and> cfg ''token'' = Some tok
      \<and> http (webclimber_url cid tok) = Inr soup
      \<and> free_slots_str soup = Inr s \<and> bar_width soup = Inr w
    \<longrightarrow> (py_int s = Inr (- 1) \<longrightarrow> crawl_webclimber http cfg = Inr \<lparr>free = 100 - w, active = w\<rparr>)
      \<and> (\<forall>r. crawl_webclimber http cfg = Inr r
            \<longrightarrow> (free r = - 1 \<longleftrightarrow> free_slots_of s = - 1 \<and> w = 101)))"
proof (intro impI, elim conjE)
  assume a: "cfg ''clientid'' = Some cid" "cfg ''token'' = Some tok"
    "http (webclimber_url cid tok) = Inr soup" "free_slots_str soup = Inr s"
    "bar_width soup = Inr w"
  have fetched: "crawl_webclimber http cfg = slots (free_slots_of s) w"
    using a by (rule crawl_webclimber_fetched)
  have first: "py_int s = Inr (- 1) \<longrightarrow> crawl_webclimber http cfg = Inr \<lparr>free = 100 - w, active = w\<rparr>"
    by (simp add: fetched free_slots_of_def slots_def)
  have second: "\<forall>r. crawl_webclimber http cfg = Inr r
                  \<longrightarrow> (free r = - 1 \<longleftrightarrow> free_slots_of s = - 1 \<and> w = 101)"
    by (auto simp: fetched slots_def py_floordiv_def split: if_splits)
  from first second
  show "(py_int s = Inr (- 1) \<longrightarrow> crawl_webclimber http cfg = Inr \<lparr>free = 100 - w, active = w\<rparr>)
      \<and> (\<forall>r. crawl_webclimber http cfg = Inr r
            \<longrightarrow> (free r = - 1 \<longleftrightarrow> free_slots_of s = - 1 \<and> w = 101))"
    by (rule conjI)
qed

theorem webclimber_sentinel_witness:
  "webclimber_config ''clientid'' = Some ''143'' \<and> webclimber_config ''token'' = Some ''abc''
   \<and> serve (webclimber_page ''-1 frei'' ''width:35%'') (webclimber_url ''143'' ''abc'')
       = Inr (webclimber_page ''-1 frei'' ''width:35%'')
   \<and> free_slots_str (webclimber_page ''-1 frei'' ''width:35%'') = Inr ''-1''
   \<and> bar_width (webclimber_page ''-1 frei'' ''width:35%'') = Inr 35
   \<and> py_int ''-1'' = Inr (- 1)
   \<and> crawl_webclimber (serve (webclimber_page ''-1 frei'' ''width:35%'')) webclimber_config
       = Inr \<lparr>free = 65, active = 35\<rparr>
   \<and> free \<lparr>free = 65, active = 35\<rparr> \<noteq> - 1"
proof -
  let ?page = "webclimber_page ''-1 frei'' ''width:35%''"
  have h1: "webclimber_config ''clientid'' = Some ''143''" by (rule example_served)
  have h2: "webclimber_config ''token'' = Some ''abc''" by (rule example_served)
  have h3: "serve ?page (webclimber_url ''143'' ''abc'') = Inr ?page" by (rule example_served)
  have h4: "free_slots_str ?page = Inr ''-1''" by (rule example_free_slots_str)
  have h5: "bar_width ?page = Inr 35" by (rule example_bar_width)
  have h6: "py_int ''-1'' = Inr (- 1)" by (rule example_py_int)
  note t = webclimber_sentinel [where cfg = webclimber_config and cid = "''143''" and tok = "''abc''"
      and http = "serve ?page" and soup = ?page and s = "''-1''" and w = 35]
  from t h1 h2 h3 h4 h5 h6
  have "crawl_webclimber (serve ?page) webclimber_config = Inr \<lparr>free = 100 - 35, active = 35\<rparr>"
    by blast
  then have r: "crawl_webclimber (serve ?page) webclimber_config = Inr \<lparr>free = 65, active = 35\<rparr>"
    by simp
  from t h1 h2 h3 h4 h5 r
  have "free \<lparr>free = 65, active = 35\<rparr> = - 1 \<longleftrightarrow> free_slots_of ''-1'' = - 1 \<and> (35::int) = 101"
    by blast
  then have n: "free \<lparr>free = 65, active = 35\<rparr> \<noteq> - 1" by simp
  show ?thesis by (intro conjI h1 h2 h3 h4 h5 h6 r n)
qed

section \<open>The width of the bar\<close>

lemma int_space_is_space: "is_int_space c \<Longrightarrow> is_space c"
  by (auto simp: is_int_space_def is_space_def)

lemma not_space_percent: "\<not> is_space CHR ''%''"
  by (simp add: is_space_def)

lemma not_space_sign: "\<not> is_space CHR ''-''" "\<not> is_space CHR ''+''"
  by (simp_all add: is_space_def)

lemma digit_not_space: "is_digit c \<Longrightarrow> \<not> is_space c"
  by (auto simp: is_digit_def is_space_def)

lemma digit_not_int_space: "is_digit c \<Longrightarrow> \<not> is_int_space c"
  by (auto dest: int_space_is_space digit_not_space)

lemma digit_not_sign: "is_digit c \<Longrightarrow> c \<noteq> CHR ''-'' \<and> c \<noteq> CHR ''+''"
  by (auto simp: is_digit_def)

lemma digit_val_range: "is_digit c \<Longrightarrow> 0 \<le> digit_val c \<and> digit_val c \<le> 9"
  by (auto simp: is_digit_def digit_val_def)

text \<open>Stripping a value that ends, before its final whitespace, in a character that is no whitespace.\<close>

lemma strip_surrounded:
  assumes "\<forall>c\<in>set pre. is_space c" and "\<forall>c\<in>set post. is_space c" and "\<not> is_space x"
  shows "strip (pre @ body @ [x] @ post) = dropWhile is_space body @ [x]"
proof -
  have front: "dropWhile is_space (pre @ body @ [x] @ post) = dropWhile is_space body @ [x] @ post"
    using assms(1,3) by (simp add: dropWhile_append)
  have rear: "dropWhile is_space (rev (dropWhile is_space body @ [x] @ post))
                = x # rev (dropWhile is_space body)"
    using assms(2,3) by (simp add: dropWhile_append)
  show ?thesis by (simp only: strip_def front rear) simp
qed

lemma digits_ok_hd: "digits_ok False t \<Longrightarrow> t \<noteq> [] \<and> is_digit (hd t)"
  by (cases t) (auto split: if_splits)

lemma py_int_strip_cong:
  "int_strip a = int_strip b \<Longrightarrow> py_int b = Inr n \<Longrightarrow> py_int a = Inr n"
  unfolding py_int_def Let_def by (auto split: if_splits)

lemma py_int_head:
  assumes "py_int s = Inr n"
  shows "int_strip s \<noteq> [] \<and> \<not> is_space (hd (int_strip s))"
proof (cases "int_strip s \<noteq> [] \<and> (hd (int_strip s) = CHR ''-'' \<or> hd (int_strip s) = CHR ''+'')")
  case True
  then show ?thesis by (auto simp: not_space_sign)
next
  case False
  with assms have "digits_ok False (int_strip s)"
    by (auto simp: py_int_def Let_def split: if_splits)
  then show ?thesis by (auto dest: digits_ok_hd digit_not_space)
qed

lemma int_strip_decomp:
  "dropWhile is_int_space s
     = int_strip s @ rev (takeWhile is_int_space (rev (dropWhile is_int_space s)))"
proof -
  let ?q = "rev (dropWhile is_int_space s)"
  have "rev (dropWhile is_int_space ?q) @ rev (takeWhile is_int_space ?q)
          = rev (takeWhile is_int_space ?q @ dropWhile is_int_space ?q)"
    by (simp only: rev_append)
  also have "\<dots> = rev ?q" by (simp only: takeWhile_dropWhile_id)
  also have "\<dots> = dropWhile is_int_space s" by simp
  finally show ?thesis by (simp add: int_strip_def)
qed

text \<open>
  What \<^verbatim>\<open>int\<close> accepts, it accepts with the same value after \<^verbatim>\<open>strip\<close> has removed
  whitespace in front of it.
\<close>

lemma py_int_dropWhile:
  assumes "py_int s = Inr n"
  shows "py_int (dropWhile is_space s) = Inr n"
proof -
  let ?r = "dropWhile is_int_space s"
  from assms have t: "int_strip s \<noteq> []" "\<not> is_space (hd (int_strip s))"
    by (simp_all add: py_int_head)
  have "?r = int_strip s @ rev (takeWhile is_int_space (rev ?r))"
    by (rule int_strip_decomp)
  with t have r: "?r \<noteq> []" "\<not> is_space (hd ?r)"
    by (metis append_is_Nil_conv, metis hd_append2)
  have "dropWhile is_space s = dropWhile is_space (takeWhile is_int_space s @ ?r)"
    by simp
  also have "\<dots> = dropWhile is_space ?r"
    by (rule dropWhile_append2) (auto dest: set_takeWhileD int_space_is_space)
  also have "\<dots> = ?r"
    using r by (simp add: dropWhile_eq_self_iff)
  finally have d: "dropWhile is_space s = ?r" .
  have "int_strip ?r = int_strip s" by (simp add: int_strip_def)
  then have "py_int ?r = Inr n" using assms by (rule py_int_strip_cong)
  with d show ?thesis by simp
qed

lemma dropWhile_space_digits:
  assumes "\<forall>c\<in>set ds. is_digit c"
  shows "dropWhile is_space ds = ds"
  using assms by (cases ds) (simp_all add: digit_not_space)

lemma int_strip_digits:
  assumes "\<forall>c\<in>set ds. is_digit c"
  shows "int_strip ds = ds"
proof (cases "ds = []")
  case True
  then show ?thesis by (simp add: int_strip_def)
next
  case False
  with assms have "\<not> is_int_space (hd ds)" and "\<not> is_int_space (last ds)"
    by (simp_all add: digit_not_int_space)
  with False have "dropWhile is_int_space ds = ds"
    and "dropWhile is_int_space (rev ds) = rev ds"
    by (simp_all add: dropWhile_eq_self_iff hd_rev)
  then show ?thesis by (simp add: int_strip_def)
qed

lemma digits_ok_digits:
  "\<forall>c\<in>set ds. is_digit c \<Longrightarrow> digits_ok p ds = (p \<or> ds \<noteq> [])"
  by (induction ds arbitrary: p) auto

lemma digits_value_snoc:
  "is_digit d \<Longrightarrow> digits_value (ds @ [d]) = digits_value ds * 10 + digit_val d"
  by (simp add: digits_value_def)

lemma py_int_digits:
  assumes "ds \<noteq> []" and "\<forall>c\<in>set ds. is_digit c"
  shows "py_int ds = Inr (digits_value ds)"
proof -
  from assms have "is_digit (hd ds)" by simp
  then have "hd ds \<noteq> CHR ''-''" and "hd ds \<noteq> CHR ''+''"
    by (simp_all add: digit_not_sign)
  with assms show ?thesis
    by (simp add: py_int_def int_strip_digits digits_ok_digits)
qed

lemma width_value_percent:
  assumes "\<forall>c\<in>set pre. is_space c" and "\<forall>c\<in>set post. is_space c" and "py_int body = Inr n"
  shows "width_value (pre @ body @ ''%'' @ post) = Inr n"
proof -
  have "strip (pre @ body @ [CHR ''%''] @ post) = dropWhile is_space body @ [CHR ''%'']"
    using assms(1,2) not_space_percent by (rule strip_surrounded)
  then have "width_value (pre @ body @ ''%'' @ post) = py_int (dropWhile is_space body)"
    by (simp add: width_value_def)
  with assms(3) show ?thesis by (simp add: py_int_dropWhile)
qed

lemma width_value_digits:
  assumes "\<forall>c\<in>set pre. is_space c" and "\<forall>c\<in>set post. is_space c"
    and "ds \<noteq> []" and "\<forall>c\<in>set ds. is_digit c" and "is_digit d"
  shows "\<exists>m. py_int (ds @ [d]) = Inr m \<and> width_value (pre @ ds @ [d] @ post) = Inr (m div 10)"
proof -
  from assms(4,5) have all: "\<forall>c\<in>set (ds @ [d]). is_digit c" by simp
  have whole: "py_int (ds @ [d]) = Inr (digits_value ds * 10 + digit_val d)"
    using py_int_digits [OF _ all] assms(5) by (simp add: digits_value_snoc)
  have "strip (pre @ ds @ [d] @ post) = dropWhile is_space ds @ [d]"
    using assms(1,2) digit_not_space [OF assms(5)] by (rule strip_surrounded)
  then have "width_value (pre @ ds @ [d] @ post) = py_int ds"
    by (simp add: width_value_def dropWhile_space_digits [OF assms(4)])
  then have cut: "width_value (pre @ ds @ [d] @ post) = Inr (digits_value ds)"
    using py_int_digits [OF assms(3,4)] by simp
  have "(digits_value ds * 10 + digit_val d) div 10 = digits_value ds"
    using digit_val_range [OF assms(5)] by simp
  with whole cut show ?thesis by simp
qed

lemma bar_width_style:
  assumes "find_class soup ''div'' ''bar'' = Some b" and "attr b ''style'' = Some style"
    and "py_dict (map (split_sep CHR '':'') (split_sep CHR '';'' style)) = Inr style_attrs"
    and "style_attrs ''width'' = Some w"
  shows "bar_width soup = width_value w"
  using assms by (simp add: bar_width_def)

text \<open>
  C10. The width of the bar is the value of \<^verbatim>\<open>width\<close> in the style, stripped of the
  whitespace at both ends, then without its last character, read by \<^verbatim>\<open>int\<close>. So a value
  made of an integer literal and a final \<^verbatim>\<open>%\<close>, with any whitespace around, gives that
  integer; and a value made of two or more digits and no \<^verbatim>\<open>%\<close>, with any whitespace
  around, gives, without an error, the integer without its last digit.
\<close>

theorem width_value_drops_last_character:
  "(find_class soup ''div'' ''bar'' = Some b \<and> attr b ''style'' = Some style
      \<and> py_dict (map (split_sep CHR '':'') (split_sep CHR '';'' style)) = Inr style_attrs
      \<and> style_attrs ''width'' = Some w
    \<longrightarrow> bar_width soup = py_int (butlast (strip w)))
   \<and> ((\<forall>c\<in>set pre. is_space c) \<and> (\<forall>c\<in>set post. is_space c) \<and> py_int body = Inr n
    \<longrightarrow> py_int (butlast (strip (pre @ body @ ''%'' @ post))) = Inr n)
   \<and> ((\<forall>c\<in>set pre. is_space c) \<and> (\<forall>c\<in>set post. is_space c)
      \<and> ds \<noteq> [] \<and> (\<forall>c\<in>set ds. is_digit c) \<and> is_digit d
    \<longrightarrow> (\<exists>m. py_int (ds @ [d]) = Inr m
            \<and> py_int (butlast (strip (pre @ ds @ [d] @ post))) = Inr (m div 10)))"
  using bar_width_style [of soup b style style_attrs w]
    width_value_percent [of pre post body n] width_value_digits [of pre post ds d]
  by (simp add: width_value_def)

theorem width_value_drops_last_character_witness:
  "find_class (webclimber_page ''40 frei'' ''width: 40% '') ''div'' ''bar''
     = Some (Tag ''div'' [''bar''] [(''style'', ''width: 40% '')] [])
   \<and> attr (Tag ''div'' [''bar''] [(''style'', ''width: 40% '')] []) ''style'' = Some ''width: 40% ''
   \<and> py_dict (map (split_sep CHR '':'') (split_sep CHR '';'' ''width: 40% ''))
       = Inr [''width'' \<mapsto> '' 40% '']
   \<and> [''width'' \<mapsto> '' 40% ''] ''width'' = Some '' 40% ''
   \<and> bar_width (webclimber_page ''40 frei'' ''width: 40% '') = Inr 40
   \<and> is_space CHR '' '' \<and> is_space CHR 0xA0
   \<and> py_int ''40'' = Inr 40
   \<and> py_int (butlast (strip '' 40% '')) = Inr 40
   \<and> ''40'' \<noteq> [] \<and> is_digit CHR ''4'' \<and> is_digit CHR ''0'' \<and> is_digit CHR ''5''
   \<and> py_int ''405'' = Inr 405
   \<and> py_int (butlast (strip ([CHR 0xA0] @ ''405'' @ '' ''))) = Inr 40"
proof -
  let ?page = "webclimber_page ''40 frei'' ''width: 40% ''"
  let ?bar = "Tag ''div'' [''bar''] [(''style'', ''width: 40% '')] []"
  note t = width_value_drops_last_character [where soup = ?page and b = ?bar
      and style = "''width: 40% ''" and style_attrs = "[''width'' \<mapsto> '' 40% '']"
      and w = "'' 40% ''" and pre = "'' ''" and post = "'' ''" and body = "''40''" and n = 40]
  note u = width_value_drops_last_character [where pre = "[CHR 0xA0]" and post = "'' ''"
      and ds = "''40''" and d = "CHR ''5''"]
  have h1: "find_class ?page ''div'' ''bar'' = Some ?bar"
    by (simp add: webclimber_page_def find_class_def)
  have h2: "attr ?bar ''style'' = Some ''width: 40% ''" by simp
  have h3: "py_dict (map (split_sep CHR '':'') (split_sep CHR '';'' ''width: 40% ''))
              = Inr [''width'' \<mapsto> '' 40% '']"
    by (simp add: py_dict_def split_sep_def)
  have h4: "[''width'' \<mapsto> '' 40% ''] ''width'' = Some '' 40% ''" by simp
  have s1: "is_space CHR '' ''" and s2: "is_space CHR 0xA0" by (simp_all add: is_space_def)
  have a1: "\<forall>c\<in>set '' ''. is_space c" and a2: "\<forall>c\<in>set [CHR 0xA0]. is_space c"
    using s1 s2 by simp_all
  have h5: "py_int ''40'' = Inr 40" by (rule example_py_int)
  have h6: "''40'' \<noteq> []" by simp
  have h7a: "is_digit CHR ''4''" and h7b: "is_digit CHR ''0''" by (simp_all add: is_digit_def)
  then have h7: "\<forall>c\<in>set ''40''. is_digit c" by simp
  have h8: "is_digit CHR ''5''" by (simp add: is_digit_def)
  have h9: "py_int ''405'' = Inr 405" by (simp add: string_defs)
  from t h1 h2 h3 h4 have link: "bar_width ?page = py_int (butlast (strip '' 40% ''))"
    by blast
  from t a1 h5 have "py_int (butlast (strip ('' '' @ ''40'' @ ''%'' @ '' ''))) = Inr 40"
    by blast
  then have c2: "py_int (butlast (strip '' 40% '')) = Inr 40" by simp
  from u a1 a2 h6 h7 h8
  have "\<exists>m. py_int (''40'' @ [CHR ''5'']) = Inr m
           \<and> py_int (butlast (strip ([CHR 0xA0] @ ''40'' @ [CHR ''5''] @ '' ''))) = Inr (m div 10)"
    by blast
  with h9 have c3: "py_int (butlast (strip ([CHR 0xA0] @ ''405'' @ '' ''))) = Inr 40" by simp
  from link c2 have c1: "bar_width ?page = Inr 40" by simp
  show ?thesis by (intro conjI h1 h2 h3 h4 c1 s1 s2 h5 c2 h6 h7a h7b h8 h9 c3)
qed

section \<open>The boulderado adapter\<close>

lemma crawl_boulderado_fetched:
  assumes "cfg ''token'' = Some tok" and "http (boulderado_url tok) = Inr soup"
  shows "crawl_boulderado http cfg =
           (case count_string soup ''act'' of
              Inl e \<Rightarrow> Inl e
            | Inr sa \<Rightarrow>
           (case py_int sa of
              Inl e \<Rightarrow> Inl e
            | Inr a \<Rightarrow>
           (case count_string soup ''free'' of
              Inl e \<Rightarrow> Inl e
            | Inr sf \<Rightarrow>
           (case py_int sf of
              Inl e \<Rightarrow> Inl e
            | Inr f \<Rightarrow> Inr \<lparr>free = f, active = a\<rparr>))))"
  using assms by (simp add: crawl_boulderado_def split: sum.splits)

lemma count_string_error: "count_string soup cv = Inl e \<Longrightarrow> e = AttributeError"
  by (auto simp: count_string_def split: option.splits)

lemma py_int_error: "py_int s = Inl e \<Longrightarrow> e = ValueError (InvalidLiteral s)"
  by (auto simp: py_int_def Let_def split: if_splits)

lemma example_boulderado_served:
  "boulderado_config ''token'' = Some ''xyz''"
  by (simp add: boulderado_config_def)

lemma example_counters:
  "find_class (boulderado_page [counter ''act'' a, counter ''free'' f]) ''div'' ''actcounter-content''
     = Some (counter ''act'' a)"
  "find_class (boulderado_page [counter ''act'' a, counter ''free'' f]) ''div'' ''freecounter-content''
     = Some (counter ''free'' f)"
  "find_class (boulderado_page [counter ''act'' a]) ''div'' (''free'' @ ''counter-content'') = None"
  "find_tag (counter cv txt) ''span'' = Some (Tag ''span'' [] [(''data-value'', txt)] [Text txt])"
  "text_of (Tag ''span'' [] [(''data-value'', txt)] [Text txt]) = txt"
  by (simp_all add: boulderado_page_def counter_def soup_defs)

lemma example_count_string:
  "count_string (boulderado_page [counter ''act'' a, counter ''free'' f]) ''act'' = Inr a"
  "count_string (boulderado_page [counter ''act'' a, counter ''free'' f]) ''free'' = Inr f"
  by (simp_all add: count_string_def example_counters)

lemma example_py_int_counts:
  "py_int ''12'' = Inr 12"
  "py_int ''8'' = Inr 8"
  "py_int ''-3'' = Inr (- 3)"
  by (simp_all add: string_defs)

text \<open>
  The same whitespace in whole pages: a counter text with a no-break space after the
  digits is read, one with the separator \<open>0x1C\<close> before them raises; a status text with a
  no-break space after the count takes Branch B.
\<close>

lemma example_whitespace_pages:
  "crawl_boulderado
     (serve (boulderado_page [counter ''act'' (''12'' @ [CHR 0xA0]), counter ''free'' ''8'']))
     boulderado_config = Inr \<lparr>free = 8, active = 12\<rparr>"
  "crawl_boulderado
     (serve (boulderado_page [counter ''act'' ([CHR 0x1C] @ ''12''), counter ''free'' ''8'']))
     boulderado_config = Inl (ValueError (InvalidLiteral ([CHR 0x1C] @ ''12'')))"
  "crawl_webclimber (serve (webclimber_page (''17'' @ [CHR 0xA0] @ ''frei'') ''width:50%''))
     webclimber_config = Inr \<lparr>free = 17, active = - 17\<rparr>"
  by (simp_all add: boulderado_defs webclimber_defs example_defs soup_defs string_defs)

text \<open>
  C5. When the \<^verbatim>\<open>span\<close> inside the \<^verbatim>\<open>div\<close> of class \<^verbatim>\<open>actcounter-content\<close> holds a text
  that \<^verbatim>\<open>int\<close> reads as \<open>a\<close>, and the one of class \<^verbatim>\<open>freecounter-content\<close> a text read
  as \<open>f\<close>, the adapter returns exactly \<open>a\<close> active and \<open>f\<close> free slots.
\<close>

theorem boulderado_counts_direct:
  assumes "cfg ''token'' = Some tok" and "http (boulderado_url tok) = Inr soup"
    and "find_class soup ''div'' ''actcounter-content'' = Some da"
    and "find_tag da ''span'' = Some spa" and "py_int (text_of spa) = Inr a"
    and "find_class soup ''div'' ''freecounter-content'' = Some df"
    and "find_tag df ''span'' = Some spf" and "py_int (text_of spf) = Inr f"
  shows "crawl_boulderado http cfg = Inr \<lparr>free = f, active = a\<rparr>"
proof -
  have "count_string soup ''act'' = Inr (text_of spa)"
    using assms(3,4) by (simp add: count_string_def)
  moreover have "count_string soup ''free'' = Inr (text_of spf)"
    using assms(6,7) by (simp add: count_string_def)
  ultimately show ?thesis
    using assms(5,8) by (simp add: crawl_boulderado_fetched [of cfg tok http soup, OF assms(1,2)])
qed

theorem boulderado_counts_direct_witness:
  "boulderado_config ''token'' = Some ''xyz''
   \<and> serve (boulderado_page [counter ''act'' ''12'', counter ''free'' ''8'']) (boulderado_url ''xyz'')
       = Inr (boulderado_page [counter ''act'' ''12'', counter ''free'' ''8''])
   \<and> find_class (boulderado_page [counter ''act'' ''12'', counter ''free'' ''8'']) ''div''
         ''actcounter-content'' = Some (counter ''act'' ''12'')
   \<and> find_tag (counter ''act'' ''12'') ''span'' = Some (Tag ''span'' [] [(''data-value'', ''12'')] [Text ''12''])
   \<and> py_int (text_of (Tag ''span'' [] [(''data-value'', ''12'')] [Text ''12''])) = Inr 12
   \<and> find_class (boulderado_page [counter ''act'' ''12'', counter ''free'' ''8'']) ''div''
         ''freecounter-content'' = Some (counter ''free'' ''8'')
   \<and> find_tag (counter ''free'' ''8'') ''span'' = Some (Tag ''span'' [] [(''data-value'', ''8'')] [Text ''8''])
   \<and> py_int (text_of (Tag ''span'' [] [(''data-value'', ''8'')] [Text ''8''])) = Inr 8
   \<and> crawl_boulderado (serve (boulderado_page [counter ''act'' ''12'', counter ''free'' ''8'']))
         boulderado_config = Inr \<lparr>free = 8, active = 12\<rparr>"
proof -
  let ?page = "boulderado_page [counter ''act'' ''12'', counter ''free'' ''8'']"
  let ?spa = "Tag ''span'' [] [(''data-value'', ''12'')] [Text ''12'']"
  let ?spf = "Tag ''span'' [] [(''data-value'', ''8'')] [Text ''8'']"
  have h1: "boulderado_config ''token'' = Some ''xyz''" by (rule example_boulderado_served)
  have h2: "serve ?page (boulderado_url ''xyz'') = Inr ?page" by (rule example_served)
  have h3: "find_class ?page ''div'' ''actcounter-content'' = Some (counter ''act'' ''12'')"
    by (rule example_counters)
  have h4: "find_tag (counter ''act'' ''12'') ''span'' = Some ?spa" by (rule example_counters)
  have h5: "py_int (text_of ?spa) = Inr 12" by (simp add: example_py_int_counts)
  have h6: "find_class ?page ''div'' ''freecounter-content'' = Some (counter ''free'' ''8'')"
    by (rule example_counters)
  have h7: "find_tag (counter ''free'' ''8'') ''span'' = Some ?spf" by (rule example_counters)
  have h8: "py_int (text_of ?spf) = Inr 8" by (simp add: example_py_int_counts)
  have r: "crawl_boulderado (serve ?page) boulderado_config = Inr \<lparr>free = 8, active = 12\<rparr>"
    using h1 h2 h3 h4 h5 h6 h7 h8 by (rule boulderado_counts_direct)
  show ?thesis by (intro conjI h1 h2 h3 h4 h5 h6 h7 h8 r)
qed

text \<open>
  C7. When, for one of the two counters, the \<^verbatim>\<open>div\<close> of its class is missing, or has no
  \<^verbatim>\<open>span\<close> inside, or the text of the \<^verbatim>\<open>span\<close> is rejected by \<^verbatim>\<open>int\<close>, the adapter
  raises and returns no result: \<^verbatim>\<open>AttributeError\<close> for a missing element,
  \<^verbatim>\<open>ValueError\<close> for a text that is no integer. These are the extraction errors of the
  specification.
\<close>

theorem boulderado_extraction_error:
  assumes "cfg ''token'' = Some tok" and "http (boulderado_url tok) = Inr soup"
    and "cv = ''act'' \<or> cv = ''free''"
    and "find_class soup ''div'' (cv @ ''counter-content'') = None
         \<or> (\<exists>d. find_class soup ''div'' (cv @ ''counter-content'') = Some d
                \<and> find_tag d ''span'' = None)
         \<or> (\<exists>d sp e. find_class soup ''div'' (cv @ ''counter-content'') = Some d
                \<and> find_tag d ''span'' = Some sp \<and> py_int (text_of sp) = Inl e)"
  shows "crawl_boulderado http cfg = Inl AttributeError
         \<or> (\<exists>s. crawl_boulderado http cfg = Inl (ValueError (InvalidLiteral s)))"
proof -
  have fails: "count_string soup cv = Inl AttributeError
               \<or> (\<exists>s. count_string soup cv = Inr s \<and> py_int s = Inl (ValueError (InvalidLiteral s)))"
    using assms(4) by (auto simp: count_string_def dest: py_int_error)
  note fetched = crawl_boulderado_fetched [of cfg tok http soup, OF assms(1,2)]
  from assms(3) show ?thesis
  proof
    assume "cv = ''act''"
    with fails show ?thesis by (auto simp: fetched)
  next
    assume free: "cv = ''free''"
    show ?thesis
    proof (cases "count_string soup ''act''")
      case (Inl e)
      then have "e = AttributeError" by (rule count_string_error)
      with Inl show ?thesis by (simp add: fetched)
    next
      case act: (Inr sa)
      show ?thesis
      proof (cases "py_int sa")
        case (Inl e)
        then have "e = ValueError (InvalidLiteral sa)" by (rule py_int_error)
        with act Inl show ?thesis by (simp add: fetched)
      next
        case (Inr a)
        with act fails free show ?thesis by (auto simp: fetched)
      qed
    qed
  qed
qed

theorem boulderado_extraction_error_witness:
  "boulderado_config ''token'' = Some ''xyz''
   \<and> serve (boulderado_page [counter ''act'' ''12'']) (boulderado_url ''xyz'')
       = Inr (boulderado_page [counter ''act'' ''12''])
   \<and> (''free'' = ''act'' \<or> ''free'' = ''free'')
   \<and> find_class (boulderado_page [counter ''act'' ''12'']) ''div'' (''free'' @ ''counter-content'') = None
   \<and> (crawl_boulderado (serve (boulderado_page [counter ''act'' ''12''])) boulderado_config
         = Inl AttributeError
       \<or> (\<exists>s. crawl_boulderado (serve (boulderado_page [counter ''act'' ''12''])) boulderado_config
                = Inl (ValueError (InvalidLiteral s))))
   \<and> serve (boulderado_page [counter ''act'' ''n/a'', counter ''free'' ''8'']) (boulderado_url ''xyz'')
       = Inr (boulderado_page [counter ''act'' ''n/a'', counter ''free'' ''8''])
   \<and> (''act'' = ''act'' \<or> ''act'' = ''free'')
   \<and> find_class (boulderado_page [counter ''act'' ''n/a'', counter ''free'' ''8'']) ''div''
         (''act'' @ ''counter-content'') = Some (counter ''act'' ''n/a'')
   \<and> find_tag (counter ''act'' ''n/a'') ''span'' = Some (Tag ''span'' [] [(''data-value'', ''n/a'')] [Text ''n/a''])
   \<and> py_int (text_of (Tag ''span'' [] [(''data-value'', ''n/a'')] [Text ''n/a'']))
       = Inl (ValueError (InvalidLiteral ''n/a''))
   \<and> (crawl_boulderado (serve (boulderado_page [counter ''act'' ''n/a'', counter ''free'' ''8'']))
          boulderado_config = Inl AttributeError
       \<or> (\<exists>s. crawl_boulderado (serve (boulderado_page [counter ''act'' ''n/a'', counter ''free'' ''8'']))
                 boulderado_config = Inl (ValueError (InvalidLiteral s))))"
proof -
  let ?p1 = "boulderado_page [counter ''act'' ''12'']"
  let ?p2 = "boulderado_page [counter ''act'' ''n/a'', counter ''free'' ''8'']"
  let ?sp = "Tag ''span'' [] [(''data-value'', ''n/a'')] [Text ''n/a'']"
  have h1: "boulderado_config ''token'' = Some ''xyz''" by (rule example_boulderado_served)
  have a2: "serve ?p1 (boulderado_url ''xyz'') = Inr ?p1" by (rule example_served)
  have a3: "''free'' = ''act'' \<or> ''free'' = ''free''" by simp
  have a4: "find_class ?p1 ''div'' (''free'' @ ''counter-content'') = None"
    by (rule example_counters)
  have a5: "crawl_boulderado (serve ?p1) boulderado_config = Inl AttributeError
            \<or> (\<exists>s. crawl_boulderado (serve ?p1) boulderado_config
                     = Inl (ValueError (InvalidLiteral s)))"
    using h1 a2 a3 by (rule boulderado_extraction_error) (rule disjI1 [OF a4])
  have b2: "serve ?p2 (boulderado_url ''xyz'') = Inr ?p2" by (rule example_served)
  have b3: "''act'' = ''act'' \<or> ''act'' = ''free''" by simp
  have b4: "find_class ?p2 ''div'' (''act'' @ ''counter-content'') = Some (counter ''act'' ''n/a'')"
    by (simp add: example_counters)
  have b5: "find_tag (counter ''act'' ''n/a'') ''span'' = Some ?sp" by (rule example_counters)
  have b6: "py_int (text_of ?sp) = Inl (ValueError (InvalidLiteral ''n/a''))"
    by (simp add: string_defs)
  have b7: "crawl_boulderado (serve ?p2) boulderado_config = Inl AttributeError
            \<or> (\<exists>s. crawl_boulderado (serve ?p2) boulderado_config
                     = Inl (ValueError (InvalidLiteral s)))"
    using h1 b2 b3 by (rule boulderado_extraction_error) (use b4 b5 b6 in blast)
  show ?thesis by (intro conjI h1 a2 a3 a4 a5 b2 b3 b4 b5 b6 b7)
qed

section \<open>The sign of the results\<close>

lemma exact_total_ge:
  assumes "0 \<le> (f::int)" and "0 < w" and "w \<le> 100" and "w dvd f"
  shows "f \<le> (f div w) * 100"
proof -
  from assms(4) obtain k where k: "f = w * k" ..
  with assms(2) have q: "f div w = k" by simp
  from assms(1,2) k have "0 \<le> k" by (simp add: zero_le_mult_iff)
  with assms(3) have "w * k \<le> 100 * k" by (rule mult_right_mono)
  with k q show ?thesis by (simp add: mult.commute)
qed

text \<open>
  Branch B with a free count that the width does not divide: for 17 free slots and a bar
  of width 50\% the quotient is 0, the total 0 and the number of active slots negative.
\<close>

lemma webclimber_truncated_total:
  "crawl_webclimber (serve (webclimber_page ''17 frei'' ''width:50%'')) webclimber_config
     = Inr \<lparr>free = 17, active = - 17\<rparr>"
proof -
  have "crawl_webclimber (serve (webclimber_page ''17 frei'' ''width:50%'')) webclimber_config
          = slots (free_slots_of ''17'') 50"
    by (rule crawl_webclimber_fetched [where cid = "''143''" and tok = "''abc''"])
       (rule example_served example_free_slots_str example_bar_width)+
  then show ?thesis
    by (simp add: free_slots_of_def example_py_int slots_def py_floordiv_def)
qed

text \<open>
  C2. The claim says that every result of an adapter has \<open>free \<ge> 0\<close> and \<open>active \<ge> 0\<close>.
  The boulderado adapter returns the two integers of the page as they are: a counter text
  \<^verbatim>\<open>-3\<close> gives \<open>free = -3\<close>.
\<close>

theorem boulderado_negative_free:
  "crawl_boulderado (serve (boulderado_page [counter ''act'' ''12'', counter ''free'' ''-3'']))
      boulderado_config = Inr \<lparr>free = - 3, active = 12\<rparr>
   \<and> \<not> (0 \<le> free \<lparr>free = - 3, active = 12\<rparr> \<and> 0 \<le> active \<lparr>free = - 3, active = 12\<rparr>)"
  by (simp add: crawl_boulderado_fetched [where tok = "''xyz''"
        and soup = "boulderado_page [counter ''act'' ''12'', counter ''free'' ''-3'']"]
      example_boulderado_served example_served example_count_string example_py_int_counts)

text \<open>
  C2 as amended. A result has \<open>free \<ge> 0\<close> and \<open>active \<ge> 0\<close> when the numbers of the page are
  in range: for boulderado when both counters are read as non-negative integers; for
  webclimber in Branch A when the width is between 0 and 100; in Branch B when the free
  count is non-negative and the width is between 1 and 100 and divides the free count.
\<close>

theorem crawl_result_nonneg:
  "(cfg ''token'' = Some tok \<and> http (boulderado_url tok) = Inr soup
      \<and> count_string soup ''act'' = Inr sa \<and> py_int sa = Inr a
      \<and> count_string soup ''free'' = Inr sf \<and> py_int sf = Inr f
      \<and> 0 \<le> a \<and> 0 \<le> f \<and> crawl_boulderado http cfg = Inr r
    \<longrightarrow> 0 \<le> free r \<and> 0 \<le> active r)
   \<and> (cfg' ''clientid'' = Some cid \<and> cfg' ''token'' = Some tok'
      \<and> http' (webclimber_url cid tok') = Inr soup'
      \<and> free_slots_str soup' = Inr s \<and> bar_width soup' = Inr w
      \<and> (free_slots_of s = - 1 \<and> 0 \<le> w \<and> w \<le> 100
          \<or> 0 \<le> free_slots_of s \<and> 0 < w \<and> w \<le> 100 \<and> w dvd free_slots_of s)
      \<and> crawl_webclimber http' cfg' = Inr r'
    \<longrightarrow> 0 \<le> free r' \<and> 0 \<le> active r')"
proof (rule conjI; intro impI; elim conjE)
  assume "cfg ''token'' = Some tok" and "http (boulderado_url tok) = Inr soup"
    and "count_string soup ''act'' = Inr sa" and "py_int sa = Inr a"
    and "count_string soup ''free'' = Inr sf" and "py_int sf = Inr f"
    and "0 \<le> a" and "0 \<le> f" and "crawl_boulderado http cfg = Inr r"
  then show "0 \<le> free r \<and> 0 \<le> active r"
    by (auto simp: crawl_boulderado_fetched [of cfg tok http soup])
next
  assume a: "cfg' ''clientid'' = Some cid" "cfg' ''token'' = Some tok'"
    "http' (webclimber_url cid tok') = Inr soup'" "free_slots_str soup' = Inr s"
    "bar_width soup' = Inr w"
    and range: "free_slots_of s = - 1 \<and> 0 \<le> w \<and> w \<le> 100
                \<or> 0 \<le> free_slots_of s \<and> 0 < w \<and> w \<le> 100 \<and> w dvd free_slots_of s"
    and r: "crawl_webclimber http' cfg' = Inr r'"
  have fetched: "crawl_webclimber http' cfg' = slots (free_slots_of s) w"
    using a by (rule crawl_webclimber_fetched)
  from range show "0 \<le> free r' \<and> 0 \<le> active r'"
  proof
    assume "free_slots_of s = - 1 \<and> 0 \<le> w \<and> w \<le> 100"
    with r fetched show ?thesis by (auto simp: slots_def)
  next
    assume b: "0 \<le> free_slots_of s \<and> 0 < w \<and> w \<le> 100 \<and> w dvd free_slots_of s"
    then have "free_slots_of s \<le> (free_slots_of s div w) * 100"
      by (simp add: exact_total_ge)
    with b r fetched show ?thesis by (auto simp: slots_def py_floordiv_def)
  qed
qed

lemma example_results:
  "crawl_boulderado (serve (boulderado_page [counter ''act'' ''12'', counter ''free'' ''8'']))
      boulderado_config = Inr \<lparr>free = 8, active = 12\<rparr>"
  "crawl_webclimber (serve (webclimber_page ''Auslastung hoch'' ''width:35%'')) webclimber_config
     = Inr \<lparr>free = 65, active = 35\<rparr>"
  "crawl_webclimber (serve (webclimber_page ''40 frei'' ''width:40%'')) webclimber_config
     = Inr \<lparr>free = 40, active = 60\<rparr>"
proof -
  show "crawl_boulderado (serve (boulderado_page [counter ''act'' ''12'', counter ''free'' ''8'']))
          boulderado_config = Inr \<lparr>free = 8, active = 12\<rparr>"
    by (simp add: crawl_boulderado_fetched [where tok = "''xyz''"
          and soup = "boulderado_page [counter ''act'' ''12'', counter ''free'' ''8'']"]
        example_boulderado_served example_served example_count_string example_py_int_counts)
  have "crawl_webclimber (serve (webclimber_page ''Auslastung hoch'' ''width:35%'')) webclimber_config
          = slots (free_slots_of ''Auslastung'') 35"
    by (rule crawl_webclimber_fetched [where cid = "''143''" and tok = "''abc''"])
       (rule example_served example_free_slots_str example_bar_width)+
  then show "crawl_webclimber (serve (webclimber_page ''Auslastung hoch'' ''width:35%''))
               webclimber_config = Inr \<lparr>free = 65, active = 35\<rparr>"
    by (simp add: free_slots_of_def example_py_int slots_def)
  have "crawl_webclimber (serve (webclimber_page ''40 frei'' ''width:40%'')) webclimber_config
          = slots (free_slots_of ''40'') 40"
    by (rule crawl_webclimber_fetched [where cid = "''143''" and tok = "''abc''"])
       (rule example_served example_free_slots_str example_bar_width)+
  then show "crawl_webclimber (serve (webclimber_page ''40 frei'' ''width:40%'')) webclimber_config
               = Inr \<lparr>free = 40, active = 60\<rparr>"
    by (simp add: free_slots_of_def example_py_int slots_def py_floordiv_def)
qed

theorem crawl_result_nonneg_witness:
  "boulderado_config ''token'' = Some ''xyz''
   \<and> serve (boulderado_page [counter ''act'' ''12'', counter ''free'' ''8'']) (boulderado_url ''xyz'')
       = Inr (boulderado_page [counter ''act'' ''12'', counter ''free'' ''8''])
   \<and> count_string (boulderado_page [counter ''act'' ''12'', counter ''free'' ''8'']) ''act'' = Inr ''12''
   \<and> py_int ''12'' = Inr 12
   \<and> count_string (boulderado_page [counter ''act'' ''12'', counter ''free'' ''8'']) ''free'' = Inr ''8''
   \<and> py_int ''8'' = Inr 8 \<and> (0::int) \<le> 12 \<and> (0::int) \<le> 8
   \<and> crawl_boulderado (serve (boulderado_page [counter ''act'' ''12'', counter ''free'' ''8'']))
        boulderado_config = Inr \<lparr>free = 8, active = 12\<rparr>
   \<and> 0 \<le> free \<lparr>free = 8, active = 12\<rparr> \<and> 0 \<le> active \<lparr>free = 8, active = 12\<rparr>
   \<and> webclimber_config ''clientid'' = Some ''143'' \<and> webclimber_config ''token'' = Some ''abc''
   \<and> serve (webclimber_page ''Auslastung hoch'' ''width:35%'') (webclimber_url ''143'' ''abc'')
       = Inr (webclimber_page ''Auslastung hoch'' ''width:35%'')
   \<and> free_slots_str (webclimber_page ''Auslastung hoch'' ''width:35%'') = Inr ''Auslastung''
   \<and> bar_width (webclimber_page ''Auslastung hoch'' ''width:35%'') = Inr 35
   \<and> free_slots_of ''Auslastung'' = - 1 \<and> (0::int) \<le> 35 \<and> (35::int) \<le> 100
   \<and> crawl_webclimber (serve (webclimber_page ''Auslastung hoch'' ''width:35%'')) webclimber_config
       = Inr \<lparr>free = 65, active = 35\<rparr>
   \<and> 0 \<le> free \<lparr>free = 65, active = 35\<rparr> \<and> 0 \<le> active \<lparr>free = 65, active = 35\<rparr>
   \<and> serve (webclimber_page ''40 frei'' ''width:40%'') (webclimber_url ''143'' ''abc'')
       = Inr (webclimber_page ''40 frei'' ''width:40%'')
   \<and> free_slots_str (webclimber_page ''40 frei'' ''width:40%'') = Inr ''40''
   \<and> bar_width (webclimber_page ''40 frei'' ''width:40%'') = Inr 40
   \<and> 0 \<le> free_slots_of ''40'' \<and> (0::int) < 40 \<and> (40::int) \<le> 100 \<and> 40 dvd free_slots_of ''40''
   \<and> crawl_webclimber (serve (webclimber_page ''40 frei'' ''width:40%'')) webclimber_config
       = Inr \<lparr>free = 40, active = 60\<rparr>
   \<and> 0 \<le> free \<lparr>free = 40, active = 60\<rparr> \<and> 0 \<le> active \<lparr>free = 40, active = 60\<rparr>"
proof -
  let ?bp = "boulderado_page [counter ''act'' ''12'', counter ''free'' ''8'']"
  let ?wa = "webclimber_page ''Auslastung hoch'' ''width:35%''"
  let ?wb = "webclimber_page ''40 frei'' ''width:40%''"
  have b1: "boulderado_config ''token'' = Some ''xyz''" by (rule example_boulderado_served)
  have b2: "serve ?bp (boulderado_url ''xyz'') = Inr ?bp" by (rule example_served)
  have b3: "count_string ?bp ''act'' = Inr ''12''" by (rule example_count_string)
  have b4: "py_int ''12'' = Inr 12" by (rule example_py_int_counts)
  have b5: "count_string ?bp ''free'' = Inr ''8''" by (rule example_count_string)
  have b6: "py_int ''8'' = Inr 8" by (rule example_py_int_counts)
  have b7: "(0::int) \<le> 12" and b8: "(0::int) \<le> 8" by simp_all
  have b9: "crawl_boulderado (serve ?bp) boulderado_config = Inr \<lparr>free = 8, active = 12\<rparr>"
    by (rule example_results)
  have w1: "webclimber_config ''clientid'' = Some ''143''" by (rule example_served)
  have w2: "webclimber_config ''token'' = Some ''abc''" by (rule example_served)
  have a3: "serve ?wa (webclimber_url ''143'' ''abc'') = Inr ?wa" by (rule example_served)
  have a4: "free_slots_str ?wa = Inr ''Auslastung''" by (rule example_free_slots_str)
  have a5: "bar_width ?wa = Inr 35" by (rule example_bar_width)
  have a6: "free_slots_of ''Auslastung'' = - 1" by (simp add: free_slots_of_def example_py_int)
  have a7: "(0::int) \<le> 35" and a8: "(35::int) \<le> 100" by simp_all
  have a9: "crawl_webclimber (serve ?wa) webclimber_config = Inr \<lparr>free = 65, active = 35\<rparr>"
    by (rule example_results)
  have c3: "serve ?wb (webclimber_url ''143'' ''abc'') = Inr ?wb" by (rule example_served)
  have c4: "free_slots_str ?wb = Inr ''40''" by (rule example_free_slots_str)
  have c5: "bar_width ?wb = Inr 40" by (rule example_bar_width)
  have fs: "free_slots_of ''40'' = 40" by (simp add: free_slots_of_def example_py_int)
  have c6: "0 \<le> free_slots_of ''40''" and c7: "(0::int) < 40" and c8: "(40::int) \<le> 100"
    and c9: "40 dvd free_slots_of ''40''" by (simp_all add: fs)
  have c10: "crawl_webclimber (serve ?wb) webclimber_config = Inr \<lparr>free = 40, active = 60\<rparr>"
    by (rule example_results)
  note t1 = crawl_result_nonneg [where cfg = boulderado_config and tok = "''xyz''"
      and http = "serve ?bp" and soup = ?bp and sa = "''12''" and a = 12 and sf = "''8''" and f = 8
      and r = "\<lparr>free = 8, active = 12\<rparr>"
      and cfg' = webclimber_config and cid = "''143''" and tok' = "''abc''"
      and http' = "serve ?wa" and soup' = ?wa and s = "''Auslastung''" and w = 35
      and r' = "\<lparr>free = 65, active = 35\<rparr>"]
  note t2 = crawl_result_nonneg [where cfg' = webclimber_config and cid = "''143''"
      and tok' = "''abc''" and http' = "serve ?wb" and soup' = ?wb and s = "''40''" and w = 40
      and r' = "\<lparr>free = 40, active = 60\<rparr>"]
  from t1 b1 b2 b3 b4 b5 b6 b7 b8 b9
  have r1: "0 \<le> free \<lparr>free = 8, active = 12\<rparr> \<and> 0 \<le> active \<lparr>free = 8, active = 12\<rparr>"
    by blast
  from t1 w1 w2 a3 a4 a5 a6 a7 a8 a9
  have r2: "0 \<le> free \<lparr>free = 65, active = 35\<rparr> \<and> 0 \<le> active \<lparr>free = 65, active = 35\<rparr>"
    by blast
  from t2 w1 w2 c3 c4 c5 c6 c7 c8 c9 c10
  have r3: "0 \<le> free \<lparr>free = 40, active = 60\<rparr> \<and> 0 \<le> active \<lparr>free = 40, active = 60\<rparr>"
    by blast
  from r1 have r1a: "0 \<le> free \<lparr>free = 8, active = 12\<rparr>"
    and r1b: "0 \<le> active \<lparr>free = 8, active = 12\<rparr>" by blast+
  from r2 have r2a: "0 \<le> free \<lparr>free = 65, active = 35\<rparr>"
    and r2b: "0 \<le> active \<lparr>free = 65, active = 35\<rparr>" by blast+
  from r3 have r3a: "0 \<le> free \<lparr>free = 40, active = 60\<rparr>"
    and r3b: "0 \<le> active \<lparr>free = 40, active = 60\<rparr>" by blast+
  show ?thesis
    by (intro conjI b1 b2 b3 b4 b5 b6 b7 b8 b9 r1a r1b w1 w2 a3 a4 a5 a6 a7 a8 a9 r2a r2b
        c3 c4 c5 c6 c7 c8 c9 c10 r3a r3b)
qed

section \<open>The dispatcher\<close>

text \<open>
  C6. For a configuration of type \<^verbatim>\<open>boulderado\<close> the dispatcher gives the result of
  \<^verbatim>\<open>crawl_boulderado\<close>, for the type \<^verbatim>\<open>webclimber\<close> the one of \<^verbatim>\<open>crawl_webclimber\<close>;
  for every other type it raises an error whose message holds the type and the name of
  the site (a \<^verbatim>\<open>ValueError\<close>, the configuration error of the specification) and returns
  no result.
\<close>

theorem crawl_site_dispatch:
  assumes "cfg ''type'' = Some t"
  shows "crawl_site http site_name cfg =
           (if t = ''boulderado'' then crawl_boulderado http cfg
            else if t = ''webclimber'' then crawl_webclimber http cfg
            else Inl (ValueError (Message
                   (''unknown boulder arena type: '' @ t @ '' for site '' @ site_name @ ''.''))))"
  using assms by (simp add: crawl_site_def unknown_type_message_def)

theorem crawl_site_dispatch_witness:
  "[''type'' \<mapsto> ''kletterhalle'', ''token'' \<mapsto> ''abc''] ''type'' = Some ''kletterhalle''
   \<and> crawl_site (serve (webclimber_page ''40 frei'' ''width:40%'')) ''Halle Nord''
         [''type'' \<mapsto> ''kletterhalle'', ''token'' \<mapsto> ''abc'']
       = Inl (ValueError (Message ''unknown boulder arena type: kletterhalle for site Halle Nord.''))
   \<and> boulderado_config ''type'' = Some ''boulderado''
   \<and> crawl_site (serve (boulderado_page [counter ''act'' ''12'', counter ''free'' ''8'']))
         ''Halle Nord'' boulderado_config = Inr \<lparr>free = 8, active = 12\<rparr>
   \<and> webclimber_config ''type'' = Some ''webclimber''
   \<and> crawl_site (serve (webclimber_page ''40 frei'' ''width:40%'')) ''Halle Nord'' webclimber_config
       = Inr \<lparr>free = 40, active = 60\<rparr>"
proof -
  let ?cfg = "[''type'' \<mapsto> ''kletterhalle'', ''token'' \<mapsto> ''abc'']"
  let ?bp = "boulderado_page [counter ''act'' ''12'', counter ''free'' ''8'']"
  let ?wp = "webclimber_page ''40 frei'' ''width:40%''"
  have h1: "?cfg ''type'' = Some ''kletterhalle''" by simp
  have h2: "boulderado_config ''type'' = Some ''boulderado''" by (simp add: boulderado_config_def)
  have h3: "webclimber_config ''type'' = Some ''webclimber''" by (simp add: webclimber_config_def)
  have r1: "crawl_site (serve ?wp) ''Halle Nord'' ?cfg
              = Inl (ValueError (Message ''unknown boulder arena type: kletterhalle for site Halle Nord.''))"
    using crawl_site_dispatch [of ?cfg "''kletterhalle''" "serve ?wp" "''Halle Nord''", OF h1]
    by simp
  have r2: "crawl_site (serve ?bp) ''Halle Nord'' boulderado_config = Inr \<lparr>free = 8, active = 12\<rparr>"
    using crawl_site_dispatch [of boulderado_config "''boulderado''" "serve ?bp" "''Halle Nord''", OF h2]
    by (simp add: example_results)
  have r3: "crawl_site (serve ?wp) ''Halle Nord'' webclimber_config = Inr \<lparr>free = 40, active = 60\<rparr>"
    using crawl_site_dispatch [of webclimber_config "''webclimber''" "serve ?wp" "''Halle Nord''", OF h3]
    by (simp add: example_results)
  show ?thesis by (intro conjI h1 r1 h2 r2 h3 r3)
qed

section \<open>The point builder\<close>

text \<open>
  C8. In the message built for a site, the tag \<^verbatim>\<open>location\<close> is the \<^verbatim>\<open>location\<close> of the
  configuration when it has one and the name of the site otherwise; the tag \<^verbatim>\<open>area\<close> is
  present exactly when the configuration has an \<^verbatim>\<open>area\<close>, with that value, and there is no
  other tag; the measurement is a constant, and the fields are the \<^verbatim>\<open>free\<close> and \<^verbatim>\<open>active\<close>
  of the crawl result.
\<close>

theorem point_message_contents:
  "msg_tags (create_point_message now site_name cfg data) ''location''
     = Some (case cfg ''location'' of Some l \<Rightarrow> l | None \<Rightarrow> site_name)
   \<and> msg_tags (create_point_message now site_name cfg data) ''area'' = cfg ''area''
   \<and> dom (msg_tags (create_point_message now site_name cfg data))
       = (case cfg ''area'' of None \<Rightarrow> {''location''} | Some a \<Rightarrow> {''location'', ''area''})
   \<and> msg_measurement (create_point_message now site_name cfg data) = ''boulder_center_utilization''
   \<and> msg_fields (create_point_message now site_name cfg data)
       = [''free'' \<mapsto> free data, ''active'' \<mapsto> active data]
   \<and> msg_time (create_point_message now site_name cfg data) = now"
  by (auto simp: create_point_message_def Let_def split: option.splits)

theorem point_message_contents_witness:
  "msg_tags (create_point_message ''2021-03-01T12:00:00'' ''Halle Nord'' boulderado_config
       \<lparr>free = 8, active = 12\<rparr>) ''location'' = Some ''Halle Nord''
   \<and> msg_tags (create_point_message ''2021-03-01T12:00:00'' ''Halle Nord'' boulderado_config
       \<lparr>free = 8, active = 12\<rparr>) ''area'' = Some ''boulder''
   \<and> msg_tags (create_point_message ''2021-03-01T12:00:00'' ''Halle Nord''
       (webclimber_config(''location'' \<mapsto> ''Nordwand'')) \<lparr>free = 8, active = 12\<rparr>) ''location''
       = Some ''Nordwand''
   \<and> msg_tags (create_point_message ''2021-03-01T12:00:00'' ''Halle Nord''
       (webclimber_config(''location'' \<mapsto> ''Nordwand'')) \<lparr>free = 8, active = 12\<rparr>) ''area'' = None
   \<and> msg_fields (create_point_message ''2021-03-01T12:00:00'' ''Halle Nord'' boulderado_config
       \<lparr>free = 8, active = 12\<rparr>) = [''free'' \<mapsto> 8, ''active'' \<mapsto> 12]"
  using point_message_contents [of "''2021-03-01T12:00:00''" "''Halle Nord''" boulderado_config
      "\<lparr>free = 8, active = 12\<rparr>"]
    point_message_contents [of "''2021-03-01T12:00:00''" "''Halle Nord''"
      "webclimber_config(''location'' \<mapsto> ''Nordwand'')" "\<lparr>free = 8, active = 12\<rparr>"]
  by (simp add: boulderado_config_def webclimber_config_def)

end
